theory Spec2Isabelle
  imports Complex_Main "HOL-Library.Multiset" "HOL-Library.Sublist"
begin

section \<open>The Freightos API client: rate limiter, request builder, response normaliser\<close>

text \<open>
  A shallow embedding of \<^verbatim>\<open>FreightosClient\<close> (the client source, 492 lines).
  What the JavaScript runtime supplies is gathered in the record \<open>runtime\<close> and taken as a
  parameter; what the client mutates is the record \<open>world\<close>, passed in and returned.
\<close>

subsection \<open>Constants\<close>

definition RATE_LIMIT :: nat where
  "RATE_LIMIT = 100"

definition RATE_LIMIT_WINDOW_MS :: int where
  "RATE_LIMIT_WINDOW_MS = 60 * 60 * 1000"

definition RATE_LIMIT_WARNING_THRESHOLD :: nat where
  "RATE_LIMIT_WARNING_THRESHOLD = 80"

subsection \<open>Numbers to strings\<close>

definition digit_char :: "nat \<Rightarrow> char" where
  "digit_char d = ''0123456789'' ! d"

function show_nat :: "nat \<Rightarrow> string" where
  "show_nat n = (if n < 10 then [digit_char n] else show_nat (n div 10) @ [digit_char (n mod 10)])"
  by pat_completeness auto
termination
  by (relation "measure (\<lambda>n. n)") auto

declare show_nat.simps [simp del]

definition show_int :: "int \<Rightarrow> string" where
  "show_int i = (if i < 0 then CHR ''-'' # show_nat (nat (- i)) else show_nat (nat i))"

text \<open>
  \<^verbatim>\<open>s || d\<close> on strings: the empty string is falsy.
\<close>

definition or_else :: "string \<Rightarrow> string \<Rightarrow> string" where
  "or_else s d = (if s = [] then d else s)"

text \<open>\<^verbatim>\<open>Math.round\<close>: the nearest integer, a tie going up.\<close>

definition Math_round :: "real \<Rightarrow> int" where
  "Math_round x = \<lfloor>x + 1 / 2\<rfloor>"

subsection \<open>The runtime and the mutable world\<close>

type_synonym params = "(string \<times> string) list"

record RawMoneyAmount =
  raw_amount :: real
  raw_currency :: string

record MoneyBox =
  moneyAmount :: RawMoneyAmount

record RawPrice =
  price_min :: MoneyBox
  price_max :: MoneyBox

record RawTransitTimes =
  raw_unit :: string
  raw_min :: real
  raw_max :: real

record RawModeData =
  raw_mode :: string
  price :: RawPrice
  raw_transitTimes :: RawTransitTimes

text \<open>\<^verbatim>\<open>mode: RawModeData | RawModeData[]\<close>: one object or an array of them.\<close>

datatype RawMode = SingleMode RawModeData | ModeArray "RawModeData list"

text \<open>
  Both fields are read from parsed JSON, where either may be missing; the source tests
  \<^verbatim>\<open>!rates.mode\<close> itself, so \<open>None\<close> is the absent field.
\<close>

record RawEstimatedFreightRates =
  rates_mode :: "RawMode option"
  rates_numQuotes :: "int option"

record ErrorObject =
  error :: string

text \<open>\<^verbatim>\<open>errors?: string | { error: string }[]\<close>\<close>

datatype RawErrors = ErrorString string | ErrorArray "ErrorObject list"

record RawApiResponse =
  raw_estimatedFreightRates :: "RawEstimatedFreightRates option"
  raw_errors :: "RawErrors option"

text \<open>
  What \<^verbatim>\<open>fetch\<close> resolves to: the status, the body as text, and the body as parsed
  JSON (\<open>None\<close> when \<^verbatim>\<open>response.json()\<close> rejects).
\<close>

record HttpResponse =
  http_status :: nat
  body_text :: string
  body_json :: "RawApiResponse option"

definition ok :: "HttpResponse \<Rightarrow> bool" where
  "ok r = (200 \<le> http_status r \<and> http_status r \<le> 299)"

text \<open>
  The runtime:
  \<^item> \<open>fl\<close> rounds the exact result of one floating-point operation to a double;
  \<^item> \<open>toLocaleTimeString\<close> renders the \<^verbatim>\<open>Date\<close> of an epoch-millisecond value;
  \<^item> \<open>float_toString\<close> is \<^verbatim>\<open>Number.prototype.toString\<close> on the numbers
    \<open>number_toString\<close> below does not print itself;
  \<^item> \<open>date_now k\<close> is what the \<open>k\<close>-th call of \<^verbatim>\<open>Date.now()\<close> returns;
  \<^item> \<open>fetch\<close> is the upstream server, \<open>None\<close> when the promise rejects. The URL is
    the configured endpoint followed by the encoded parameters; the model passes the
    parameter list.
\<close>

record runtime =
  fl :: "real \<Rightarrow> real"
  toLocaleTimeString :: "int \<Rightarrow> string"
  float_toString :: "real \<Rightarrow> string"
  date_now :: "nat \<Rightarrow> int"
  fetch :: "params \<Rightarrow> HttpResponse option"

text \<open>
  The file \<^verbatim>\<open>ratelimit.json\<close>: missing, unreadable or not JSON, or a parsed document
  whose \<^verbatim>\<open>calls\<close> field is absent (\<open>None\<close>) or a list of timestamps.
\<close>

datatype RateLimitFile = NoFile | Unreadable | Parsed "int list option"

text \<open>
  How the next \<^verbatim>\<open>writeFileSync\<close> on that file ends. It opens the file with flag \<^verbatim>\<open>w\<close>,
  which truncates it, and then writes the text: it succeeds, or it throws before the file
  is opened (the file is untouched), or it throws after the file is opened (the file is
  left empty or holding a proper prefix of the JSON text, neither of which parses).
\<close>

datatype WriteOutcome = WriteSucceeds | OpenFails | WriteFailsAfterOpen

record world =
  rate_limit_file :: RateLimitFile
  write_outcome :: WriteOutcome
  ticks :: nat
  fetched :: "params list"

definition Date_now :: "runtime \<Rightarrow> world \<Rightarrow> int \<times> world" where
  "Date_now rt w = (date_now rt (ticks w), w\<lparr>ticks := Suc (ticks w)\<rparr>)"

subsection \<open>Rate limiting\<close>

record RateLimitStatus =
  callsInLastHour :: nat
  limit :: nat
  remaining :: int
  percentUsed :: int
  resetsAt :: "int option"
  warning :: "string option"

text \<open>\<^verbatim>\<open>loadRateLimitData\<close>: \<^verbatim>\<open>{ calls: data.calls || [] }\<close>, and \<^verbatim>\<open>[]\<close> after a catch.\<close>

definition loadRateLimitData :: "world \<Rightarrow> int list" where
  "loadRateLimitData w =
     (case rate_limit_file w of
        NoFile \<Rightarrow> []
      | Unreadable \<Rightarrow> []
      | Parsed None \<Rightarrow> []
      | Parsed (Some calls) \<Rightarrow> calls)"

text \<open>\<^verbatim>\<open>saveRateLimitData\<close>: a write that throws is caught and ignored.\<close>

definition saveRateLimitData :: "int list \<Rightarrow> world \<Rightarrow> world" where
  "saveRateLimitData calls w =
     (case write_outcome w of
        WriteSucceeds \<Rightarrow> w\<lparr>rate_limit_file := Parsed (Some calls)\<rparr>
      | OpenFails \<Rightarrow> w
      | WriteFailsAfterOpen \<Rightarrow> w\<lparr>rate_limit_file := Unreadable\<rparr>)"

definition cleanOldCalls :: "runtime \<Rightarrow> int list \<Rightarrow> world \<Rightarrow> int list \<times> world" where
  "cleanOldCalls rt calls w =
     (let (now, w') = Date_now rt w;
          cutoff = now - RATE_LIMIT_WINDOW_MS
      in (filter (\<lambda>timestamp. timestamp > cutoff) calls, w'))"

definition getRateLimitStatus :: "runtime \<Rightarrow> world \<Rightarrow> RateLimitStatus \<times> world" where
  "getRateLimitStatus rt w =
     (let data = loadRateLimitData w;
          (recentCalls, w') = cleanOldCalls rt data w;
          callsInLastHour = length recentCalls;
          remaining = max 0 (int RATE_LIMIT - int callsInLastHour);
          percentUsed = Math_round (fl rt (fl rt (real callsInLastHour / real RATE_LIMIT) * 100));
          resetsAt =
            (if length recentCalls > 0 \<and> remaining = 0
             then Some (Min (set recentCalls) + RATE_LIMIT_WINDOW_MS)
             else None);
          warning =
            (if callsInLastHour \<ge> RATE_LIMIT then
               Some (''RATE LIMIT REACHED: '' @ show_nat callsInLastHour @ ''/'' @ show_nat RATE_LIMIT
                     @ '' calls used. Wait until ''
                     @ (case resetsAt of None \<Rightarrow> ''unknown''
                        | Some d \<Rightarrow> or_else (toLocaleTimeString rt d) ''unknown'')
                     @ '' for more capacity.'')
             else if callsInLastHour \<ge> RATE_LIMIT_WARNING_THRESHOLD then
               Some (''Rate limit warning: '' @ show_nat callsInLastHour @ ''/'' @ show_nat RATE_LIMIT
                     @ '' calls used ('' @ show_int percentUsed @ ''%). '' @ show_int remaining
                     @ '' remaining this hour.'')
             else None)
      in (\<lparr>callsInLastHour = callsInLastHour, limit = RATE_LIMIT, remaining = remaining,
           percentUsed = percentUsed, resetsAt = resetsAt, warning = warning\<rparr>, w'))"

definition recordCall :: "runtime \<Rightarrow> world \<Rightarrow> world" where
  "recordCall rt w =
     (let data = loadRateLimitData w;
          (recentCalls, w1) = cleanOldCalls rt data w;
          (now, w2) = Date_now rt w1
      in saveRateLimitData (recentCalls @ [now]) w2)"

definition checkRateLimit :: "runtime \<Rightarrow> world \<Rightarrow> (bool \<times> RateLimitStatus) \<times> world" where
  "checkRateLimit rt w =
     (let (status, w') = getRateLimitStatus rt w
      in ((remaining status > 0, status), w'))"

subsection \<open>Request builder\<close>

record QuoteOptions =
  origin :: string
  destination :: string
  loadtype :: string
  weight :: real
  weightUnit :: "string option"
  width :: "real option"
  length_dim :: "real option"
  height :: "real option"
  dimensionUnit :: "string option"
  volume :: "real option"
  volumeUnit :: "string option"
  quantity :: "real option"
  mode :: "string option"
  estimate :: "bool option"
  hazCode :: "string option"

text \<open>
  \<^verbatim>\<open>Number.prototype.toString\<close>, also what a template literal applies to a number: an
  integral value of magnitude at most \<open>2\<^sup>5\<^sup>3\<close> prints as its decimal digits; every other
  value (a fraction, or a larger number, which prints its shortest round-trip digits) is left
  to the runtime.
\<close>

definition number_toString :: "runtime \<Rightarrow> real \<Rightarrow> string" where
  "number_toString rt x =
     (if x = of_int \<lfloor>x\<rfloor> \<and> \<bar>x\<bar> \<le> 2 ^ 53 then show_int \<lfloor>x\<rfloor> else float_toString rt x)"

text \<open>
  \<^verbatim>\<open>URLSearchParams\<close> as the ordered list of its pairs: \<^verbatim>\<open>set\<close> overwrites the first
  pair of the key and removes the others, or appends; \<^verbatim>\<open>get\<close> returns the first value.
\<close>

fun params_set :: "string \<Rightarrow> string \<Rightarrow> params \<Rightarrow> params" where
  "params_set k v [] = [(k, v)]"
| "params_set k v ((k', v') # ps) =
     (if k' = k then (k, v) # filter (\<lambda>(a, b). a \<noteq> k) ps else (k', v') # params_set k v ps)"

definition params_delete :: "string \<Rightarrow> params \<Rightarrow> params" where
  "params_delete k ps = filter (\<lambda>(a, b). a \<noteq> k) ps"

definition params_get :: "string \<Rightarrow> params \<Rightarrow> string option" where
  "params_get k ps = map_of ps k"

text \<open>\<^verbatim>\<open>unit || ""\<close>\<close>

definition unit_or_empty :: "string option \<Rightarrow> string" where
  "unit_or_empty u = (case u of None \<Rightarrow> [] | Some v \<Rightarrow> or_else v [])"

definition buildParams :: "runtime \<Rightarrow> QuoteOptions \<Rightarrow> params" where
  "buildParams rt options =
     (let params = [];
          params = params_set ''origin'' (origin options) params;
          params = params_set ''destination'' (destination options) params;
          params = params_set ''loadtype'' (loadtype options) params;
          params =
            (case weightUnit options of
               Some u \<Rightarrow>
                 if u \<noteq> [] \<and> u \<noteq> ''kg''
                 then params_set ''weight'' (number_toString rt (weight options) @ u) params
                 else params_set ''weight'' (number_toString rt (weight options)) params
             | None \<Rightarrow> params_set ''weight'' (number_toString rt (weight options)) params);
          params =
            (case width options of
               Some x \<Rightarrow>
                 params_set ''width'' (number_toString rt x @ unit_or_empty (dimensionUnit options)) params
             | None \<Rightarrow> params);
          params =
            (case length_dim options of
               Some x \<Rightarrow>
                 params_set ''length'' (number_toString rt x @ unit_or_empty (dimensionUnit options)) params
             | None \<Rightarrow> params);
          params =
            (case height options of
               Some x \<Rightarrow>
                 params_set ''height'' (number_toString rt x @ unit_or_empty (dimensionUnit options)) params
             | None \<Rightarrow> params);
          params =
            (case volume options of
               Some x \<Rightarrow>
                 params_set ''volume'' (number_toString rt x @ unit_or_empty (volumeUnit options)) params
             | None \<Rightarrow> params);
          params =
            (case quantity options of
               Some n \<Rightarrow> if n > 1 then params_set ''quantity'' (number_toString rt n) params else params
             | None \<Rightarrow> params);
          params =
            (case mode options of
               Some m \<Rightarrow> if m \<noteq> [] then params_set ''mode'' m params else params
             | None \<Rightarrow> params);
          params =
            (if estimate options = Some True then params_set ''estimate'' ''true'' params else params);
          params =
            (case hazCode options of
               Some h \<Rightarrow> if h \<noteq> [] then params_set ''hazCode'' h params else params
             | None \<Rightarrow> params)
      in params_set ''format'' ''json'' params)"

subsection \<open>Response normaliser\<close>

record PriceRange =
  amount :: real
  currency :: string

record TransitTimes =
  min_time :: real
  max_time :: real
  unit_time :: string

record FreightRate =
  rate_mode :: string
  minPrice :: PriceRange
  maxPrice :: PriceRange
  transitTimes :: TransitTimes

text \<open>
  \<^verbatim>\<open>QuoteResponse\<close>: every field optional. The client never assigns \<^verbatim>\<open>origin\<close>,
  \<^verbatim>\<open>destination\<close> and \<^verbatim>\<open>rawResponse\<close>, which are left out.
\<close>

record QuoteResponse =
  estimatedFreightRates :: "FreightRate list option"
  numQuotes :: "int option"
  errors :: "string list option"
  rateLimit :: "RateLimitStatus option"

definition empty_response :: QuoteResponse where
  "empty_response = \<lparr>estimatedFreightRates = None, numQuotes = None, errors = None, rateLimit = None\<rparr>"

text \<open>\<^verbatim>\<open>result.errors && result.errors.length > 0\<close>\<close>

definition has_errors :: "QuoteResponse \<Rightarrow> bool" where
  "has_errors r = (case errors r of None \<Rightarrow> False | Some es \<Rightarrow> length es > 0)"

definition transformResponse :: "RawApiResponse \<Rightarrow> QuoteResponse" where
  "transformResponse raw =
     (let result = empty_response;
          result =
            (case raw_errors raw of
               None \<Rightarrow> result
             | Some (ErrorString s) \<Rightarrow> if s \<noteq> [] then result\<lparr>errors := Some [s]\<rparr> else result
             | Some (ErrorArray es) \<Rightarrow>
                 if length es > 0 then result\<lparr>errors := Some (map error es)\<rparr> else result)
      in if has_errors result then result
         else
           (case raw_estimatedFreightRates raw of
              None \<Rightarrow> result
            | Some rates \<Rightarrow>
                (let result = result\<lparr>numQuotes := rates_numQuotes rates\<rparr>
                 in if rates_mode rates = None \<or> rates_numQuotes rates = Some 0
                    then result\<lparr>estimatedFreightRates := Some []\<rparr>
                    else
                      (let modesArray =
                             (case rates_mode rates of
                                Some (ModeArray ms) \<Rightarrow> ms
                              | Some (SingleMode m) \<Rightarrow> [m]
                              | None \<Rightarrow> [])
                       in result\<lparr>estimatedFreightRates := Some (map (\<lambda>m.
                            \<lparr>rate_mode = raw_mode m,
                             minPrice = \<lparr>amount = raw_amount (moneyAmount (price_min (price m))),
                                         currency = raw_currency (moneyAmount (price_min (price m)))\<rparr>,
                             maxPrice = \<lparr>amount = raw_amount (moneyAmount (price_max (price m))),
                                         currency = raw_currency (moneyAmount (price_max (price m)))\<rparr>,
                             transitTimes = \<lparr>min_time = raw_min (raw_transitTimes m),
                                             max_time = raw_max (raw_transitTimes m),
                                             unit_time = raw_unit (raw_transitTimes m)\<rparr>\<rparr>)
                            modesArray)\<rparr>))))"

subsection \<open>The client facade\<close>

text \<open>
  What a call throws: an \<^verbatim>\<open>Error\<close> with its message, the rejection of \<^verbatim>\<open>fetch\<close>, or
  the rejection of \<^verbatim>\<open>response.json()\<close>.
\<close>

datatype thrown = Error string | FetchRejected | JsonRejected

fun join :: "string \<Rightarrow> string list \<Rightarrow> string" where
  "join sep [] = []"
| "join sep [x] = x"
| "join sep (x # y # ys) = x @ sep @ join sep (y # ys)"

definition request :: "runtime \<Rightarrow> params \<Rightarrow> world \<Rightarrow> (thrown + QuoteResponse) \<times> world" where
  "request rt params w =
     (let ((allowed, status), w1) = checkRateLimit rt w
      in if \<not> allowed then
           (Inr (empty_response
                  \<lparr>errors := Some [''Rate limit exceeded: '' @ show_nat (callsInLastHour status) @ ''/''
                      @ show_nat (limit status) @ '' calls in the last hour. Try again at ''
                      @ (case resetsAt status of None \<Rightarrow> ''later''
                         | Some d \<Rightarrow> or_else (toLocaleTimeString rt d) ''later'')
                      @ ''.''],
                    rateLimit := Some status\<rparr>), w1)
         else
           (let w2 = w1\<lparr>fetched := fetched w1 @ [params]\<rparr>
            in case fetch rt params of
                 None \<Rightarrow> (Inl FetchRejected, w2)
               | Some response \<Rightarrow>
                   (let w3 = recordCall rt w2
                    in if \<not> ok response then
                         (Inl (Error (''Freightos API error ('' @ show_nat (http_status response)
                                       @ ''): '' @ body_text response)), w3)
                       else
                         (case body_json response of
                            None \<Rightarrow> (Inl JsonRejected, w3)
                          | Some rawData \<Rightarrow>
                              (let data = transformResponse rawData;
                                   (status', w4) = getRateLimitStatus rt w3;
                                   data = data\<lparr>rateLimit := Some status'\<rparr>
                               in case errors data of
                                    None \<Rightarrow> (Inr data, w4)
                                  | Some es \<Rightarrow>
                                      if length es > 0
                                      then (Inl (Error (''Freightos API errors: '' @ join '', '' es)), w4)
                                      else (Inr data, w4))))))"

definition getQuote :: "runtime \<Rightarrow> QuoteOptions \<Rightarrow> world \<Rightarrow> (thrown + QuoteResponse) \<times> world" where
  "getQuote rt options w = request rt (buildParams rt options) w"

definition getQuoteEstimate ::
  "runtime \<Rightarrow> QuoteOptions \<Rightarrow> world \<Rightarrow> (thrown + QuoteResponse) \<times> world" where
  "getQuoteEstimate rt options w = request rt (buildParams rt (options\<lparr>estimate := Some True\<rparr>)) w"

definition compareRates :: "runtime \<Rightarrow> QuoteOptions \<Rightarrow> world \<Rightarrow> (thrown + QuoteResponse) \<times> world" where
  "compareRates rt options w = request rt (params_delete ''mode'' (buildParams rt options)) w"

subsection \<open>Notions used in the statements\<close>

text \<open>
  The timestamps that count at a reading \<open>now\<close> of the clock: those less than one window old.
\<close>

definition recent :: "int \<Rightarrow> int list \<Rightarrow> int list" where
  "recent now calls = filter (\<lambda>t. now - t < RATE_LIMIT_WINDOW_MS) calls"

text \<open>
  What IEEE 754 binary64 rounding to nearest guarantees on the range the percentage is
  computed in: zero is exact, and from \<open>1/100\<close> up to \<open>2\<^sup>5\<^sup>3\<close> the relative error is at
  most \<open>2\<^sup>-\<^sup>5\<^sup>3\<close>.
\<close>

definition double_rounding :: "(real \<Rightarrow> real) \<Rightarrow> bool" where
  "double_rounding f \<longleftrightarrow>
     f 0 = 0 \<and> (\<forall>x. 1 / 100 \<le> x \<and> x \<le> 2 ^ 53 \<longrightarrow> \<bar>f x - x\<bar> \<le> x / 2 ^ 53)"

text \<open>
  The flattening the specification describes for one rate entry: the mode name,
  \<^verbatim>\<open>price.min.moneyAmount.{amount,currency}\<close> and \<^verbatim>\<open>price.max.moneyAmount.{amount,currency}\<close>
  as flat minimum and maximum prices, and the transit time's minimum, maximum and unit.
\<close>

definition flatten_spec :: "RawModeData \<Rightarrow> FreightRate" where
  "flatten_spec m =
     \<lparr>rate_mode = raw_mode m,
      minPrice = \<lparr>amount = raw_amount (moneyAmount (price_min (price m))),
                  currency = raw_currency (moneyAmount (price_min (price m)))\<rparr>,
      maxPrice = \<lparr>amount = raw_amount (moneyAmount (price_max (price m))),
                  currency = raw_currency (moneyAmount (price_max (price m)))\<rparr>,
      transitTimes = \<lparr>min_time = raw_min (raw_transitTimes m),
                      max_time = raw_max (raw_transitTimes m),
                      unit_time = raw_unit (raw_transitTimes m)\<rparr>\<rparr>"

text \<open>
  The responses whose \<^verbatim>\<open>errors\<close> field is absent, the empty string or the empty array.
\<close>

definition no_errors :: "RawApiResponse \<Rightarrow> bool" where
  "no_errors raw \<longleftrightarrow>
     raw_errors raw = None \<or> raw_errors raw = Some (ErrorString []) \<or> raw_errors raw = Some (ErrorArray [])"

subsection \<open>Example inputs\<close>

text \<open>
  A runtime with exact arithmetic, a clock that starts at 5000000 ms and advances by one
  per reading, and a server that answers 200 with the body
  \<^verbatim>\<open>{"response":{"errors":"bad route"}}\<close>.
\<close>

definition example_runtime :: runtime where
  "example_runtime =
     \<lparr>fl = (\<lambda>x. x), toLocaleTimeString = show_int, float_toString = (\<lambda>x. ''NaN''),
      date_now = (\<lambda>k. 5000000 + int k),
      fetch = (\<lambda>p. Some \<lparr>http_status = 200, body_text = [],
                 body_json = Some \<lparr>raw_estimatedFreightRates = None,
                                   raw_errors = Some (ErrorString ''bad route'')\<rparr>\<rparr>)\<rparr>"

definition example_world :: "int list \<Rightarrow> world" where
  "example_world calls =
     \<lparr>rate_limit_file = Parsed (Some calls), write_outcome = WriteSucceeds, ticks = 0,
      fetched = []\<rparr>"

definition example_mode :: "string \<Rightarrow> RawModeData" where
  "example_mode name =
     \<lparr>raw_mode = name,
      price = \<lparr>price_min = \<lparr>moneyAmount = \<lparr>raw_amount = 1200, raw_currency = ''USD''\<rparr>\<rparr>,
               price_max = \<lparr>moneyAmount = \<lparr>raw_amount = 1500, raw_currency = ''USD''\<rparr>\<rparr>\<rparr>,
      raw_transitTimes = \<lparr>raw_unit = ''days'', raw_min = 30, raw_max = 40\<rparr>\<rparr>"

definition example_options :: QuoteOptions where
  "example_options =
     \<lparr>origin = ''CNNGB'', destination = ''GBSOU'', loadtype = ''pallets'', weight = 500,
      weightUnit = Some ''lb'', width = Some 120, length_dim = Some 100, height = Some 180,
      dimensionUnit = Some ''cm'', volume = None, volumeUnit = None, quantity = Some 6,
      mode = None, estimate = None, hazCode = None\<rparr>"

subsection \<open>Properties of the rate limiter\<close>

lemma cleanOldCalls_eq:
  "cleanOldCalls rt calls w = (recent (date_now rt (ticks w)) calls, w\<lparr>ticks := Suc (ticks w)\<rparr>)"
proof -
  have "(\<lambda>t. date_now rt (ticks w) - RATE_LIMIT_WINDOW_MS < t)
        = (\<lambda>t. date_now rt (ticks w) - t < RATE_LIMIT_WINDOW_MS)"
    by (rule ext) linarith
  then show ?thesis
    by (simp add: cleanOldCalls_def Date_now_def recent_def)
qed

lemma status_callsInLastHour:
  "callsInLastHour (fst (getRateLimitStatus rt w))
   = length (recent (date_now rt (ticks w)) (loadRateLimitData w))"
  by (simp add: getRateLimitStatus_def cleanOldCalls_eq Let_def)

lemma status_remaining:
  "remaining (fst (getRateLimitStatus rt w))
   = max 0 (100 - int (callsInLastHour (fst (getRateLimitStatus rt w))))"
  by (simp add: getRateLimitStatus_def cleanOldCalls_eq Let_def RATE_LIMIT_def)

lemma status_percentUsed:
  "percentUsed (fst (getRateLimitStatus rt w))
   = Math_round (fl rt (fl rt (real (callsInLastHour (fst (getRateLimitStatus rt w))) / 100) * 100))"
  by (simp add: getRateLimitStatus_def cleanOldCalls_eq Let_def RATE_LIMIT_def)

lemma status_resetsAt:
  "resetsAt (fst (getRateLimitStatus rt w))
   = (if 100 \<le> callsInLastHour (fst (getRateLimitStatus rt w))
      then Some (Min (set (recent (date_now rt (ticks w)) (loadRateLimitData w))) + 3600000)
      else None)"
  by (auto simp add: getRateLimitStatus_def cleanOldCalls_eq Let_def RATE_LIMIT_def RATE_LIMIT_WINDOW_MS_def)

lemma status_limit: "limit (fst (getRateLimitStatus rt w)) = 100"
  by (simp add: getRateLimitStatus_def cleanOldCalls_eq Let_def RATE_LIMIT_def)

lemma status_world: "snd (getRateLimitStatus rt w) = w\<lparr>ticks := Suc (ticks w)\<rparr>"
  by (simp add: getRateLimitStatus_def cleanOldCalls_eq Let_def)

lemma status_warning:
  "warning (fst (getRateLimitStatus rt w))
   = (let st = fst (getRateLimitStatus rt w); n = callsInLastHour st in
      if 100 \<le> n then
        Some (''RATE LIMIT REACHED: '' @ show_nat n @ ''/'' @ show_nat 100
              @ '' calls used. Wait until ''
              @ (case resetsAt st of None \<Rightarrow> ''unknown''
                 | Some d \<Rightarrow> or_else (toLocaleTimeString rt d) ''unknown'')
              @ '' for more capacity.'')
      else if 80 \<le> n then
        Some (''Rate limit warning: '' @ show_nat n @ ''/'' @ show_nat 100
              @ '' calls used ('' @ show_int (percentUsed st) @ ''%). '' @ show_int (remaining st)
              @ '' remaining this hour.'')
      else None)"
  by (simp add: getRateLimitStatus_def cleanOldCalls_eq Let_def RATE_LIMIT_def
        RATE_LIMIT_WARNING_THRESHOLD_def)

text \<open>
  C3. Pruning at a reading \<open>now\<close> of the clock keeps exactly the entries \<open>t\<close> with
  \<open>now - t < 3600000\<close> (in their order, each as often as it occurs) and drops exactly the
  entries with \<open>now - t \<ge> 3600000\<close>; a permutation of the input gives the same multiset
  of retained entries.
\<close>

theorem cleanOldCalls_prunes_exactly:
  "fst (cleanOldCalls rt calls w) = filter (\<lambda>t. date_now rt (ticks w) - t < 3600000) calls
   \<and> mset (fst (cleanOldCalls rt calls w))
       = filter_mset (\<lambda>t. date_now rt (ticks w) - t < 3600000) (mset calls)
   \<and> (\<forall>t. t \<in> set (fst (cleanOldCalls rt calls w))
          \<longleftrightarrow> t \<in> set calls \<and> \<not> (date_now rt (ticks w) - t \<ge> 3600000))
   \<and> (mset calls' = mset calls
        \<longrightarrow> mset (fst (cleanOldCalls rt calls' w)) = mset (fst (cleanOldCalls rt calls w)))"
proof -
  have a: "fst (cleanOldCalls rt xs w) = filter (\<lambda>t. date_now rt (ticks w) - t < 3600000) xs" for xs
    by (simp add: cleanOldCalls_eq recent_def RATE_LIMIT_WINDOW_MS_def)
  have b: "mset (fst (cleanOldCalls rt xs w))
           = filter_mset (\<lambda>t. date_now rt (ticks w) - t < 3600000) (mset xs)" for xs
    by (simp add: a)
  have c: "\<forall>t. t \<in> set (fst (cleanOldCalls rt calls w))
          \<longleftrightarrow> t \<in> set calls \<and> \<not> (date_now rt (ticks w) - t \<ge> 3600000)"
    by (auto simp: a)
  have d: "mset calls' = mset calls
        \<longrightarrow> mset (fst (cleanOldCalls rt calls' w)) = mset (fst (cleanOldCalls rt calls w))"
    by (simp add: b)
  from a b c d show ?thesis by blast
qed

theorem cleanOldCalls_prunes_exactly_witness:
  "mset [5000000, 1, 4000000] = mset [1, 4000000, 5000000 :: int]
   \<and> mset (fst (cleanOldCalls example_runtime [5000000, 1, 4000000] (example_world [])))
     = mset (fst (cleanOldCalls example_runtime [1, 4000000, 5000000] (example_world [])))
   \<and> fst (cleanOldCalls example_runtime [1, 4000000, 5000000] (example_world []))
     = [4000000, 5000000]"
proof -
  have h: "mset [5000000, 1, 4000000] = mset [1, 4000000, 5000000 :: int]"
    by simp
  note t = cleanOldCalls_prunes_exactly
             [of example_runtime "[1, 4000000, 5000000]" "example_world []" "[5000000, 1, 4000000]"]
  from t h
  have a: "mset (fst (cleanOldCalls example_runtime [5000000, 1, 4000000] (example_world [])))
     = mset (fst (cleanOldCalls example_runtime [1, 4000000, 5000000] (example_world [])))"
    by blast
  from t
  have "fst (cleanOldCalls example_runtime [1, 4000000, 5000000] (example_world []))
        = filter (\<lambda>t. date_now example_runtime (ticks (example_world [])) - t < 3600000)
            [1, 4000000, 5000000]"
    by blast
  then have b: "fst (cleanOldCalls example_runtime [1, 4000000, 5000000] (example_world []))
     = [4000000, 5000000]"
    by (simp add: example_runtime_def example_world_def)
  from h a b show ?thesis by blast
qed

text \<open>
  C8. For every persisted file and reading of the clock, the status counts the timestamps
  less than one hour old; its warning is present exactly when that count is at least 80;
  the warning is the one that starts \<^verbatim>\<open>RATE LIMIT REACHED: \<close> exactly when the count is at
  least 100, and the one that starts \<^verbatim>\<open>Rate limit warning: \<close> exactly when the count is
  from 80 to 99.
\<close>

theorem warning_thresholds:
  "callsInLastHour (fst (getRateLimitStatus rt w))
     = length (filter (\<lambda>t. date_now rt (ticks w) - t < 3600000) (loadRateLimitData w))
   \<and> (warning (fst (getRateLimitStatus rt w)) \<noteq> None
        \<longleftrightarrow> 80 \<le> callsInLastHour (fst (getRateLimitStatus rt w)))
   \<and> ((\<exists>m. warning (fst (getRateLimitStatus rt w)) = Some m \<and> prefix ''RATE LIMIT REACHED: '' m)
        \<longleftrightarrow> 100 \<le> callsInLastHour (fst (getRateLimitStatus rt w)))
   \<and> ((\<exists>m. warning (fst (getRateLimitStatus rt w)) = Some m \<and> prefix ''Rate limit warning: '' m)
        \<longleftrightarrow> 80 \<le> callsInLastHour (fst (getRateLimitStatus rt w))
             \<and> callsInLastHour (fst (getRateLimitStatus rt w)) < 100)"
proof -
  let ?st = "fst (getRateLimitStatus rt w)"
  have a: "callsInLastHour ?st
     = length (filter (\<lambda>t. date_now rt (ticks w) - t < 3600000) (loadRateLimitData w))"
    by (simp add: status_callsInLastHour recent_def RATE_LIMIT_WINDOW_MS_def)
  have b: "warning ?st \<noteq> None \<longleftrightarrow> 80 \<le> callsInLastHour ?st"
    by (simp add: status_warning Let_def)
  have c: "(\<exists>m. warning ?st = Some m \<and> prefix ''RATE LIMIT REACHED: '' m)
        \<longleftrightarrow> 100 \<le> callsInLastHour ?st"
    by (simp add: status_warning Let_def)
  have d: "(\<exists>m. warning ?st = Some m \<and> prefix ''Rate limit warning: '' m)
        \<longleftrightarrow> 80 \<le> callsInLastHour ?st \<and> callsInLastHour ?st < 100"
    by (auto simp add: status_warning Let_def)
  from a b c d show ?thesis by blast
qed

lemma percent_round_trip:
  assumes f: "double_rounding f" and n: "n < 2 ^ 32"
  shows "Math_round (f (f (real n / 100) * 100)) = int n"
proof (cases "n = 0")
  case True
  with f show ?thesis by (simp add: double_rounding_def Math_round_def)
next
  case False
  define r where "r = real n"
  define x where "x = r / 100"
  define d1 where "d1 = f x"
  define d2 where "d2 = f (d1 * 100)"
  define eps where "eps = r / 2 ^ 53"
  have r1: "1 \<le> r" using False by (simp add: r_def)
  have r2: "r < 4294967296"
  proof -
    have "real n < real (2 ^ 32)" using n by (simp only: of_nat_less_iff)
    then show ?thesis by (simp add: r_def)
  qed
  have eps0: "0 \<le> eps" and eps1: "eps < 1 / 1000"
    using r1 r2 by (simp_all add: eps_def)
  have x1: "1 / 100 \<le> x" and x2: "x \<le> 2 ^ 53"
    using r1 r2 by (simp_all add: x_def)
  have xe: "x / 2 ^ 53 = eps / 100"
    by (simp add: x_def eps_def)
  from f x1 x2 have "\<bar>d1 - x\<bar> \<le> x / 2 ^ 53"
    unfolding double_rounding_def d1_def by blast
  then have "d1 - x \<le> eps / 100" and "- (eps / 100) \<le> d1 - x"
    unfolding xe by linarith+
  then have "d1 * 100 - r \<le> eps" and "- eps \<le> d1 * 100 - r"
    unfolding x_def by linarith+
  then have e1: "\<bar>d1 * 100 - r\<bar> \<le> eps"
    by linarith
  have y1: "1 / 100 \<le> d1 * 100" and y2: "d1 * 100 \<le> 2 ^ 53"
    using e1 eps1 r1 r2 by simp_all
  from f y1 y2 have e2: "\<bar>d2 - d1 * 100\<bar> \<le> d1 * 100 / 2 ^ 53"
    unfolding double_rounding_def d2_def by blast
  have "d1 * 100 \<le> r + eps"
    using e1 by linarith
  then have "d1 * 100 / 2 ^ 53 \<le> (r + eps) / 2 ^ 53"
    by (rule divide_right_mono) simp
  also have "\<dots> \<le> 1 / 1000"
    using r2 eps1 by simp
  finally have e3: "\<bar>d2 - d1 * 100\<bar> \<le> 1 / 1000"
    using e2 by linarith
  have "r \<le> d2 + 1 / 2" and "d2 + 1 / 2 < r + 1"
    using e1 e3 eps1 by linarith+
  moreover have "real_of_int (int n) = r"
    by (simp add: r_def)
  ultimately have "real_of_int (int n) \<le> d2 + 1 / 2" and "d2 + 1 / 2 < real_of_int (int n) + 1"
    by simp_all
  then have "\<lfloor>d2 + 1 / 2\<rfloor> = int n"
    by (rule floor_unique)
  then show ?thesis
    by (simp add: Math_round_def d2_def d1_def x_def r_def)
qed

text \<open>
  C10. Whenever the two floating-point operations round as binary64 does and the count of
  valid calls is below \<open>2\<^sup>3\<^sup>2\<close> (the bound on the length of an array), \<^verbatim>\<open>percentUsed\<close> is
  exactly that count; it is not capped, so a count above 100 gives a percentage above 100
  while \<^verbatim>\<open>remaining\<close> is 0.
\<close>

theorem percentUsed_is_count:
  assumes "double_rounding (fl rt)"
    and "callsInLastHour (fst (getRateLimitStatus rt w)) < 2 ^ 32"
  shows "percentUsed (fst (getRateLimitStatus rt w)) = int (callsInLastHour (fst (getRateLimitStatus rt w)))
       \<and> callsInLastHour (fst (getRateLimitStatus rt w))
         = length (filter (\<lambda>t. date_now rt (ticks w) - t < 3600000) (loadRateLimitData w))
       \<and> (100 < callsInLastHour (fst (getRateLimitStatus rt w)) \<longrightarrow>
            100 < percentUsed (fst (getRateLimitStatus rt w))
            \<and> remaining (fst (getRateLimitStatus rt w)) = 0)"
proof -
  let ?st = "fst (getRateLimitStatus rt w)"
  have a: "percentUsed ?st = int (callsInLastHour ?st)"
    by (simp only: status_percentUsed percent_round_trip [OF assms])
  have b: "callsInLastHour ?st
         = length (filter (\<lambda>t. date_now rt (ticks w) - t < 3600000) (loadRateLimitData w))"
    by (simp add: status_callsInLastHour recent_def RATE_LIMIT_WINDOW_MS_def)
  have c: "100 < callsInLastHour ?st \<longrightarrow> 100 < percentUsed ?st \<and> remaining ?st = 0"
    unfolding a by (subst status_remaining) simp
  from a b c show ?thesis by blast
qed

theorem percentUsed_is_count_witness:
  "double_rounding (fl example_runtime)
   \<and> callsInLastHour (fst (getRateLimitStatus example_runtime (example_world (replicate 101 4000000)))) < 2 ^ 32
   \<and> 100 < callsInLastHour (fst (getRateLimitStatus example_runtime (example_world (replicate 101 4000000))))
   \<and> percentUsed (fst (getRateLimitStatus example_runtime (example_world (replicate 101 4000000)))) = 101
   \<and> remaining (fst (getRateLimitStatus example_runtime (example_world (replicate 101 4000000)))) = 0"
proof -
  have h1: "double_rounding (fl example_runtime)"
    by (simp add: double_rounding_def example_runtime_def)
  have n: "callsInLastHour (fst (getRateLimitStatus example_runtime (example_world (replicate 101 4000000)))) = 101"
    by (simp add: status_callsInLastHour recent_def example_runtime_def example_world_def
        loadRateLimitData_def RATE_LIMIT_WINDOW_MS_def)
  have h2: "callsInLastHour (fst (getRateLimitStatus example_runtime (example_world (replicate 101 4000000)))) < 2 ^ 32"
    unfolding n by simp
  from percentUsed_is_count [OF h1 h2] show ?thesis
    using h1 h2 n by simp
qed

subsection \<open>Properties of the response normaliser\<close>

lemma transformResponse_error_string:
  "raw_errors raw = Some (ErrorString s) \<Longrightarrow> s \<noteq> [] \<Longrightarrow>
   transformResponse raw = empty_response\<lparr>errors := Some [s]\<rparr>"
  by (simp add: transformResponse_def has_errors_def empty_response_def)

lemma transformResponse_error_array:
  "raw_errors raw = Some (ErrorArray es) \<Longrightarrow> es \<noteq> [] \<Longrightarrow>
   transformResponse raw = empty_response\<lparr>errors := Some (map error es)\<rparr>"
  by (simp add: transformResponse_def has_errors_def empty_response_def)

lemma transformResponse_no_errors:
  "no_errors raw \<Longrightarrow>
   transformResponse raw =
     (case raw_estimatedFreightRates raw of
        None \<Rightarrow> empty_response
      | Some rates \<Rightarrow>
          if rates_mode rates = None \<or> rates_numQuotes rates = Some 0
          then empty_response\<lparr>numQuotes := rates_numQuotes rates, estimatedFreightRates := Some []\<rparr>
          else empty_response\<lparr>numQuotes := rates_numQuotes rates,
                 estimatedFreightRates := Some (map flatten_spec
                   (case rates_mode rates of Some (ModeArray ms) \<Rightarrow> ms | Some (SingleMode m) \<Rightarrow> [m]
                    | None \<Rightarrow> []))\<rparr>)"
proof -
  have f: "(\<lambda>m. \<lparr>rate_mode = raw_mode m,
      minPrice = \<lparr>amount = raw_amount (moneyAmount (price_min (price m))),
                  currency = raw_currency (moneyAmount (price_min (price m)))\<rparr>,
      maxPrice = \<lparr>amount = raw_amount (moneyAmount (price_max (price m))),
                  currency = raw_currency (moneyAmount (price_max (price m)))\<rparr>,
      transitTimes = \<lparr>min_time = raw_min (raw_transitTimes m),
                      max_time = raw_max (raw_transitTimes m),
                      unit_time = raw_unit (raw_transitTimes m)\<rparr>\<rparr>) = flatten_spec"
    by (rule ext) (simp add: flatten_spec_def)
  assume "no_errors raw"
  then consider "raw_errors raw = None" | "raw_errors raw = Some (ErrorString [])"
    | "raw_errors raw = Some (ErrorArray [])"
    by (auto simp: no_errors_def)
  then show ?thesis
    by cases (simp_all add: transformResponse_def has_errors_def empty_response_def f Let_def
        split: option.split)
qed

text \<open>
  C4. A response whose \<^verbatim>\<open>errors\<close> field is a non-empty string \<open>s\<close> normalises to the error
  outcome with the one message \<open>s\<close>; one whose \<^verbatim>\<open>errors\<close> field is a non-empty array of
  error objects normalises to the error outcome with their \<^verbatim>\<open>error\<close> strings, in order. In
  both cases nothing else is set: no rate list, no \<^verbatim>\<open>numQuotes\<close>, whatever
  \<^verbatim>\<open>estimatedFreightRates\<close> holds. The body \<^verbatim>\<open>{"response":{"errors":"bad route"}}\<close> gives
  exactly the message \<^verbatim>\<open>bad route\<close> and no rate list.
\<close>

theorem transformResponse_errors:
  "(\<forall>s. raw_errors raw = Some (ErrorString s) \<and> s \<noteq> [] \<longrightarrow>
        transformResponse raw
        = \<lparr>estimatedFreightRates = None, numQuotes = None, errors = Some [s], rateLimit = None\<rparr>)
   \<and> (\<forall>es. raw_errors raw = Some (ErrorArray es) \<and> es \<noteq> [] \<longrightarrow>
        transformResponse raw
        = \<lparr>estimatedFreightRates = None, numQuotes = None, errors = Some (map error es),
            rateLimit = None\<rparr>)
   \<and> transformResponse
        \<lparr>raw_estimatedFreightRates = None, raw_errors = Some (ErrorString ''bad route'')\<rparr>
      = \<lparr>estimatedFreightRates = None, numQuotes = None, errors = Some [''bad route''],
          rateLimit = None\<rparr>"
  by (simp add: transformResponse_error_string transformResponse_error_array empty_response_def)

theorem transformResponse_errors_witness:
  "raw_errors \<lparr>raw_estimatedFreightRates =
                 Some \<lparr>rates_mode = None, rates_numQuotes = Some 2\<rparr>,
               raw_errors = Some (ErrorArray [\<lparr>error = ''no route''\<rparr>, \<lparr>error = ''bad port''\<rparr>])\<rparr>
     = Some (ErrorArray [\<lparr>error = ''no route''\<rparr>, \<lparr>error = ''bad port''\<rparr>])
   \<and> [\<lparr>error = ''no route''\<rparr>, \<lparr>error = ''bad port''\<rparr>] \<noteq> []
   \<and> transformResponse
        \<lparr>raw_estimatedFreightRates = Some \<lparr>rates_mode = None, rates_numQuotes = Some 2\<rparr>,
         raw_errors = Some (ErrorArray [\<lparr>error = ''no route''\<rparr>, \<lparr>error = ''bad port''\<rparr>])\<rparr>
     = \<lparr>estimatedFreightRates = None, numQuotes = None,
        errors = Some [''no route'', ''bad port''], rateLimit = None\<rparr>
   \<and> raw_errors \<lparr>raw_estimatedFreightRates = None, raw_errors = Some (ErrorString ''x'')\<rparr>
     = Some (ErrorString ''x'') \<and> ''x'' \<noteq> []
   \<and> transformResponse \<lparr>raw_estimatedFreightRates = None, raw_errors = Some (ErrorString ''x'')\<rparr>
     = \<lparr>estimatedFreightRates = None, numQuotes = None, errors = Some [''x''], rateLimit = None\<rparr>"
  using transformResponse_errors
          [of "\<lparr>raw_estimatedFreightRates = Some \<lparr>rates_mode = None, rates_numQuotes = Some 2\<rparr>,
               raw_errors = Some (ErrorArray [\<lparr>error = ''no route''\<rparr>, \<lparr>error = ''bad port''\<rparr>])\<rparr>"]
        transformResponse_errors
          [of "\<lparr>raw_estimatedFreightRates = None, raw_errors = Some (ErrorString ''x'')\<rparr>"]
  by simp

text \<open>
  C9. A response whose \<^verbatim>\<open>errors\<close> field is the empty string or the empty array is not an
  error outcome: the result carries no errors, and it is the success-path result built from
  \<^verbatim>\<open>estimatedFreightRates\<close>. Without that field the result is empty; with it the result
  has the upstream \<^verbatim>\<open>numQuotes\<close> and a rate list, which is empty when the \<^verbatim>\<open>mode\<close> field is
  absent or \<^verbatim>\<open>numQuotes\<close> is 0 and otherwise holds the flattening of every rate object of
  the \<^verbatim>\<open>mode\<close> field. This is the result the same response without the \<^verbatim>\<open>errors\<close> field
  normalises to.
\<close>

theorem transformResponse_empty_errors:
  "raw_errors raw = Some (ErrorString []) \<or> raw_errors raw = Some (ErrorArray []) \<Longrightarrow>
   errors (transformResponse raw) = None
   \<and> transformResponse raw
     = (case raw_estimatedFreightRates raw of
          None \<Rightarrow>
            \<lparr>estimatedFreightRates = None, numQuotes = None, errors = None, rateLimit = None\<rparr>
        | Some rates \<Rightarrow>
            \<lparr>estimatedFreightRates =
               Some (if rates_mode rates = None \<or> rates_numQuotes rates = Some 0 then []
                     else map flatten_spec
                            (case rates_mode rates of
                               Some (ModeArray ms) \<Rightarrow> ms
                             | Some (SingleMode m) \<Rightarrow> [m]
                             | None \<Rightarrow> [])),
             numQuotes = rates_numQuotes rates, errors = None, rateLimit = None\<rparr>)
   \<and> transformResponse raw = transformResponse (raw\<lparr>raw_errors := None\<rparr>)"
proof -
  assume h: "raw_errors raw = Some (ErrorString []) \<or> raw_errors raw = Some (ErrorArray [])"
  then have a: "no_errors raw" by (auto simp: no_errors_def)
  have b: "no_errors (raw\<lparr>raw_errors := None\<rparr>)" by (simp add: no_errors_def)
  have c: "transformResponse raw = transformResponse (raw\<lparr>raw_errors := None\<rparr>)"
    by (simp add: transformResponse_no_errors [OF a] transformResponse_no_errors [OF b])
  have d: "errors (transformResponse raw) = None"
    by (simp add: transformResponse_no_errors [OF a] empty_response_def split: option.split)
  have e: "transformResponse raw
     = (case raw_estimatedFreightRates raw of
          None \<Rightarrow>
            \<lparr>estimatedFreightRates = None, numQuotes = None, errors = None, rateLimit = None\<rparr>
        | Some rates \<Rightarrow>
            \<lparr>estimatedFreightRates =
               Some (if rates_mode rates = None \<or> rates_numQuotes rates = Some 0 then []
                     else map flatten_spec
                            (case rates_mode rates of
                               Some (ModeArray ms) \<Rightarrow> ms
                             | Some (SingleMode m) \<Rightarrow> [m]
                             | None \<Rightarrow> [])),
             numQuotes = rates_numQuotes rates, errors = None, rateLimit = None\<rparr>)"
    by (simp add: transformResponse_no_errors [OF a] empty_response_def split: option.split)
  from c d e show ?thesis by blast
qed

theorem transformResponse_empty_errors_witness:
  "raw_errors \<lparr>raw_estimatedFreightRates =
                 Some \<lparr>rates_mode = Some (SingleMode (example_mode ''LCL'')),
                       rates_numQuotes = Some 1\<rparr>,
               raw_errors = Some (ErrorArray [])\<rparr> = Some (ErrorArray [])
   \<and> transformResponse
        \<lparr>raw_estimatedFreightRates =
           Some \<lparr>rates_mode = Some (SingleMode (example_mode ''LCL'')), rates_numQuotes = Some 1\<rparr>,
         raw_errors = Some (ErrorArray [])\<rparr>
     = \<lparr>estimatedFreightRates =
          Some [\<lparr>rate_mode = ''LCL'',
                 minPrice = \<lparr>amount = 1200, currency = ''USD''\<rparr>,
                 maxPrice = \<lparr>amount = 1500, currency = ''USD''\<rparr>,
                 transitTimes = \<lparr>min_time = 30, max_time = 40, unit_time = ''days''\<rparr>\<rparr>],
        numQuotes = Some 1, errors = None, rateLimit = None\<rparr>"
proof -
  let ?raw = "\<lparr>raw_estimatedFreightRates =
                 Some \<lparr>rates_mode = Some (SingleMode (example_mode ''LCL'')),
                       rates_numQuotes = Some 1\<rparr>,
               raw_errors = Some (ErrorArray [])\<rparr>"
  have h: "raw_errors ?raw = Some (ErrorArray [])"
    by simp
  then have "raw_errors ?raw = Some (ErrorString []) \<or> raw_errors ?raw = Some (ErrorArray [])"
    by blast
  note t = transformResponse_empty_errors [OF this]
  from t have "transformResponse ?raw
     = (case raw_estimatedFreightRates ?raw of
          None \<Rightarrow>
            \<lparr>estimatedFreightRates = None, numQuotes = None, errors = None, rateLimit = None\<rparr>
        | Some rates \<Rightarrow>
            \<lparr>estimatedFreightRates =
               Some (if rates_mode rates = None \<or> rates_numQuotes rates = Some 0 then []
                     else map flatten_spec
                            (case rates_mode rates of
                               Some (ModeArray ms) \<Rightarrow> ms
                             | Some (SingleMode m) \<Rightarrow> [m]
                             | None \<Rightarrow> [])),
             numQuotes = rates_numQuotes rates, errors = None, rateLimit = None\<rparr>)"
    by blast
  then have "transformResponse ?raw
     = \<lparr>estimatedFreightRates =
          Some [\<lparr>rate_mode = ''LCL'',
                 minPrice = \<lparr>amount = 1200, currency = ''USD''\<rparr>,
                 maxPrice = \<lparr>amount = 1500, currency = ''USD''\<rparr>,
                 transitTimes = \<lparr>min_time = 30, max_time = 40, unit_time = ''days''\<rparr>\<rparr>],
        numQuotes = Some 1, errors = None, rateLimit = None\<rparr>"
    by (simp add: flatten_spec_def example_mode_def)
  with h show ?thesis
    by blast
qed

text \<open>
  C5, as amended. For a response without errors that contains \<^verbatim>\<open>estimatedFreightRates\<close>
  where \<^verbatim>\<open>numQuotes\<close> is 0 or the \<^verbatim>\<open>mode\<close> field is absent or an empty array, the result is
  a success outcome with an empty rate list whose \<^verbatim>\<open>numQuotes\<close> is the upstream value,
  copied as it is; the body \<^verbatim>\<open>{"response":{"estimatedFreightRates":{"numQuotes":0}}}\<close>
  gives the empty rate list and \<^verbatim>\<open>numQuotes\<close> 0.
\<close>

theorem transformResponse_no_rates:
  assumes "no_errors raw" and "raw_estimatedFreightRates raw = Some rates"
    and "rates_numQuotes rates = Some 0 \<or> rates_mode rates = None
         \<or> rates_mode rates = Some (ModeArray [])"
  shows "transformResponse raw
         = \<lparr>estimatedFreightRates = Some [], numQuotes = rates_numQuotes rates, errors = None,
            rateLimit = None\<rparr>
       \<and> transformResponse
           \<lparr>raw_estimatedFreightRates = Some \<lparr>rates_mode = None, rates_numQuotes = Some 0\<rparr>,
            raw_errors = None\<rparr>
         = \<lparr>estimatedFreightRates = Some [], numQuotes = Some 0, errors = None, rateLimit = None\<rparr>"
proof -
  have a: "transformResponse raw
         = \<lparr>estimatedFreightRates = Some [], numQuotes = rates_numQuotes rates, errors = None,
            rateLimit = None\<rparr>"
    using assms(2,3) by (auto simp add: transformResponse_no_errors [OF assms(1)] empty_response_def)
  have "no_errors \<lparr>raw_estimatedFreightRates = Some \<lparr>rates_mode = None, rates_numQuotes = Some 0\<rparr>,
            raw_errors = None\<rparr>"
    by (simp add: no_errors_def)
  then have b: "transformResponse
           \<lparr>raw_estimatedFreightRates = Some \<lparr>rates_mode = None, rates_numQuotes = Some 0\<rparr>,
            raw_errors = None\<rparr>
         = \<lparr>estimatedFreightRates = Some [], numQuotes = Some 0, errors = None, rateLimit = None\<rparr>"
    by (simp add: transformResponse_no_errors empty_response_def)
  from a b show ?thesis by blast
qed

theorem transformResponse_no_rates_witness:
  "no_errors \<lparr>raw_estimatedFreightRates = Some \<lparr>rates_mode = Some (ModeArray []), rates_numQuotes = None\<rparr>,
              raw_errors = Some (ErrorArray [])\<rparr>
   \<and> transformResponse
        \<lparr>raw_estimatedFreightRates = Some \<lparr>rates_mode = Some (ModeArray []), rates_numQuotes = None\<rparr>,
         raw_errors = Some (ErrorArray [])\<rparr>
      = \<lparr>estimatedFreightRates = Some [], numQuotes = None, errors = None, rateLimit = None\<rparr>"
proof -
  have h: "no_errors \<lparr>raw_estimatedFreightRates =
                Some \<lparr>rates_mode = Some (ModeArray []), rates_numQuotes = None\<rparr>,
              raw_errors = Some (ErrorArray [])\<rparr>"
    by (simp add: no_errors_def)
  from transformResponse_no_rates [OF h, of "\<lparr>rates_mode = Some (ModeArray []), rates_numQuotes = None\<rparr>"]
  show ?thesis using h by simp
qed

text \<open>
  The claim as stated fails: with the \<^verbatim>\<open>mode\<close> field absent and an upstream \<^verbatim>\<open>numQuotes\<close>
  of 3, the rate list is empty and \<^verbatim>\<open>numQuotes\<close> is 3, not 0.
\<close>

theorem transformResponse_no_rates_counterexample:
  "rates_mode \<lparr>rates_mode = None, rates_numQuotes = Some 3\<rparr> = None
   \<and> transformResponse
        \<lparr>raw_estimatedFreightRates = Some \<lparr>rates_mode = None, rates_numQuotes = Some 3\<rparr>,
         raw_errors = None\<rparr>
      = \<lparr>estimatedFreightRates = Some [], numQuotes = Some 3, errors = None, rateLimit = None\<rparr>
   \<and> numQuotes (transformResponse
        \<lparr>raw_estimatedFreightRates = Some \<lparr>rates_mode = None, rates_numQuotes = Some 3\<rparr>,
         raw_errors = None\<rparr>) \<noteq> Some 0"
  by (simp add: transformResponse_def has_errors_def empty_response_def)

text \<open>
  C6. For a response without errors whose \<^verbatim>\<open>numQuotes\<close> is not 0: a \<^verbatim>\<open>mode\<close> field
  holding one rate object gives a rate list of length 1, the flattening of that object,
  and the same result as the one-element array holding it; a \<^verbatim>\<open>mode\<close> field holding an
  array of \<open>N\<close> rate objects gives the list of their flattenings, of length \<open>N\<close>.
\<close>

theorem transformResponse_single_or_array:
  assumes "no_errors raw" and "raw_estimatedFreightRates raw = Some rates"
    and "rates_numQuotes rates \<noteq> Some 0"
  shows "(\<forall>m. rates_mode rates = Some (SingleMode m) \<longrightarrow>
            estimatedFreightRates (transformResponse raw) = Some [flatten_spec m]
            \<and> transformResponse raw
              = transformResponse (raw\<lparr>raw_estimatedFreightRates :=
                                          Some (rates\<lparr>rates_mode := Some (ModeArray [m])\<rparr>)\<rparr>))
       \<and> (\<forall>ms. rates_mode rates = Some (ModeArray ms) \<longrightarrow>
            estimatedFreightRates (transformResponse raw) = Some (map flatten_spec ms)
            \<and> (\<exists>rs. estimatedFreightRates (transformResponse raw) = Some rs
                     \<and> length rs = length ms))
       \<and> errors (transformResponse raw) = None"
proof -
  have n: "no_errors (raw\<lparr>raw_estimatedFreightRates := x\<rparr>)" for x
    using assms(1) by (simp add: no_errors_def)
  have a: "estimatedFreightRates (transformResponse raw) = Some [flatten_spec m]"
    if "rates_mode rates = Some (SingleMode m)" for m
    using that assms(2,3) by (simp add: transformResponse_no_errors [OF assms(1)])
  have b: "transformResponse raw
              = transformResponse (raw\<lparr>raw_estimatedFreightRates :=
                                          Some (rates\<lparr>rates_mode := Some (ModeArray [m])\<rparr>)\<rparr>)"
    if "rates_mode rates = Some (SingleMode m)" for m
    using that assms(2,3) by (simp add: transformResponse_no_errors [OF assms(1)] transformResponse_no_errors [OF n])
  have c: "estimatedFreightRates (transformResponse raw) = Some (map flatten_spec ms)"
    if "rates_mode rates = Some (ModeArray ms)" for ms
    using that assms(2,3) by (simp add: transformResponse_no_errors [OF assms(1)])
  have d: "errors (transformResponse raw) = None"
    using assms(2) by (simp add: transformResponse_no_errors [OF assms(1)] empty_response_def)
  from a b c d show ?thesis by simp
qed

theorem transformResponse_single_or_array_witness:
  "no_errors \<lparr>raw_estimatedFreightRates =
                Some \<lparr>rates_mode = Some (ModeArray [example_mode ''LCL'', example_mode ''air'']),
                      rates_numQuotes = Some 2\<rparr>, raw_errors = None\<rparr>
   \<and> (2::int) \<noteq> 0
   \<and> estimatedFreightRates (transformResponse
        \<lparr>raw_estimatedFreightRates =
                Some \<lparr>rates_mode = Some (ModeArray [example_mode ''LCL'', example_mode ''air'']),
                      rates_numQuotes = Some 2\<rparr>, raw_errors = None\<rparr>)
     = Some [flatten_spec (example_mode ''LCL''), flatten_spec (example_mode ''air'')]
   \<and> estimatedFreightRates (transformResponse
        \<lparr>raw_estimatedFreightRates =
                Some \<lparr>rates_mode = Some (SingleMode (example_mode ''LCL'')),
                      rates_numQuotes = Some 2\<rparr>, raw_errors = None\<rparr>)
     = Some [flatten_spec (example_mode ''LCL'')]"
proof -
  let ?many = "\<lparr>rates_mode = Some (ModeArray [example_mode ''LCL'', example_mode ''air'']),
                rates_numQuotes = Some 2\<rparr>"
  let ?one = "\<lparr>rates_mode = Some (SingleMode (example_mode ''LCL'')), rates_numQuotes = Some 2\<rparr>"
  have h1: "no_errors \<lparr>raw_estimatedFreightRates = Some ?many, raw_errors = None\<rparr>"
    by (simp add: no_errors_def)
  have h2: "no_errors \<lparr>raw_estimatedFreightRates = Some ?one, raw_errors = None\<rparr>"
    by (simp add: no_errors_def)
  have r1: "raw_estimatedFreightRates \<lparr>raw_estimatedFreightRates = Some ?many, raw_errors = None\<rparr>
            = Some ?many"
    and r2: "raw_estimatedFreightRates \<lparr>raw_estimatedFreightRates = Some ?one, raw_errors = None\<rparr>
            = Some ?one"
    and n1: "rates_numQuotes ?many \<noteq> Some 0" and n2: "rates_numQuotes ?one \<noteq> Some 0"
    and m1: "rates_mode ?many = Some (ModeArray [example_mode ''LCL'', example_mode ''air''])"
    and m2: "rates_mode ?one = Some (SingleMode (example_mode ''LCL''))"
    by simp_all
  from transformResponse_single_or_array [OF h1 r1 n1] m1
  have a: "estimatedFreightRates
             (transformResponse \<lparr>raw_estimatedFreightRates = Some ?many, raw_errors = None\<rparr>)
           = Some (map flatten_spec [example_mode ''LCL'', example_mode ''air''])"
    by blast
  from transformResponse_single_or_array [OF h2 r2 n2] m2
  have b: "estimatedFreightRates
             (transformResponse \<lparr>raw_estimatedFreightRates = Some ?one, raw_errors = None\<rparr>)
           = Some [flatten_spec (example_mode ''LCL'')]"
    by blast
  from h1 a b show ?thesis by simp
qed

subsection \<open>Properties of the request builder\<close>

lemma map_of_filter_key:
  "map_of (filter (\<lambda>(a, b). a \<noteq> k) ps) x = (if x = k then None else map_of ps x)"
  by (induction ps) auto

lemma params_get_set:
  "params_get x (params_set k v ps) = (if x = k then Some v else params_get x ps)"
  by (induction ps) (auto simp: params_get_def map_of_filter_key)

lemma params_get_Nil: "params_get x [] = None"
  by (simp add: params_get_def)

lemma params_get_mem: "params_get k ps = Some v \<Longrightarrow> (k, v) \<in> set ps"
  by (simp add: params_get_def map_of_SomeD)

lemma show_nat_120: "show_nat 120 = ''120''"
  by (simp add: show_nat.simps digit_char_def)

lemma show_nat_100: "show_nat 100 = ''100''"
  by (simp add: show_nat.simps digit_char_def)

lemma number_toString_120: "number_toString rt 120 = ''120''"
  by (simp add: number_toString_def show_int_def show_nat_120)

lemma get_case_set:
  "params_get x (case opt of None \<Rightarrow> ps | Some y \<Rightarrow> params_set k (f y) ps)
   = (if x = k then (case opt of None \<Rightarrow> params_get x ps | Some y \<Rightarrow> Some (f y))
      else params_get x ps)"
  by (simp add: params_get_set split: option.split)

lemma get_case_if_set:
  "params_get x (case opt of None \<Rightarrow> ps | Some y \<Rightarrow> if c y then params_set k (f y) ps else ps)
   = (if x = k
      then (case opt of None \<Rightarrow> params_get x ps
            | Some y \<Rightarrow> if c y then Some (f y) else params_get x ps)
      else params_get x ps)"
  by (simp add: params_get_set split: option.split)

lemma get_if_set:
  "params_get x (if c then params_set k v ps else ps)
   = (if x = k \<and> c then Some v else params_get x ps)"
  by (simp add: params_get_set)

lemma get_case_weight:
  "params_get x (case opt of None \<Rightarrow> params_set k a ps
                 | Some u \<Rightarrow> if c u then params_set k (f u) ps else params_set k (g u) ps)
   = (if x = k then Some (case opt of None \<Rightarrow> a | Some u \<Rightarrow> if c u then f u else g u)
      else params_get x ps)"
  by (simp add: params_get_set split: option.split)

lemmas params_get_simps =
  params_get_set params_get_Nil get_case_set get_case_if_set get_if_set get_case_weight

lemma buildParams_weight:
  "params_get ''weight'' (buildParams rt q)
   = Some (case weightUnit q of
             None \<Rightarrow> number_toString rt (weight q)
           | Some u \<Rightarrow> if u \<noteq> [] \<and> u \<noteq> ''kg'' then number_toString rt (weight q) @ u
                       else number_toString rt (weight q))"
  by (simp add: buildParams_def Let_def params_get_simps)

lemma buildParams_width:
  "width q = Some x \<Longrightarrow>
   params_get ''width'' (buildParams rt q) = Some (number_toString rt x @ unit_or_empty (dimensionUnit q))"
  by (simp add: buildParams_def Let_def params_get_simps)

lemma buildParams_length:
  "length_dim q = Some x \<Longrightarrow>
   params_get ''length'' (buildParams rt q) = Some (number_toString rt x @ unit_or_empty (dimensionUnit q))"
  by (simp add: buildParams_def Let_def params_get_simps)

lemma buildParams_height:
  "height q = Some x \<Longrightarrow>
   params_get ''height'' (buildParams rt q) = Some (number_toString rt x @ unit_or_empty (dimensionUnit q))"
  by (simp add: buildParams_def Let_def params_get_simps)

lemma buildParams_volume:
  "volume q = Some x \<Longrightarrow>
   params_get ''volume'' (buildParams rt q) = Some (number_toString rt x @ unit_or_empty (volumeUnit q))"
  by (simp add: buildParams_def Let_def params_get_simps)

lemma unit_or_empty_eq: "unit_or_empty u = (case u of None \<Rightarrow> [] | Some v \<Rightarrow> v)"
  by (simp add: unit_or_empty_def or_else_def split: option.split)

text \<open>
  C7. The \<^verbatim>\<open>weight\<close> parameter is the bare number when the weight unit is absent or
  \<^verbatim>\<open>kg\<close>, and otherwise the number immediately followed by the unit. Each of \<^verbatim>\<open>width\<close>,
  \<^verbatim>\<open>length\<close>, \<^verbatim>\<open>height\<close> (with the dimension unit) and \<^verbatim>\<open>volume\<close> (with the volume unit),
  when given, is the number immediately followed by its unit, or the bare number when
  the unit is absent. A request with width 120 and dimension unit \<^verbatim>\<open>cm\<close> has the
  parameter \<^verbatim>\<open>width=120cm\<close>.
\<close>

theorem buildParams_unit_suffix:
  "(weightUnit q = None \<or> weightUnit q = Some ''kg'' \<longrightarrow>
      params_get ''weight'' (buildParams rt q) = Some (number_toString rt (weight q)))
   \<and> (\<forall>u. weightUnit q = Some u \<and> u \<noteq> ''kg'' \<longrightarrow>
        params_get ''weight'' (buildParams rt q) = Some (number_toString rt (weight q) @ u))
   \<and> (\<forall>x. width q = Some x \<longrightarrow>
        params_get ''width'' (buildParams rt q)
        = Some (number_toString rt x @ (case dimensionUnit q of None \<Rightarrow> [] | Some u \<Rightarrow> u)))
   \<and> (\<forall>x. length_dim q = Some x \<longrightarrow>
        params_get ''length'' (buildParams rt q)
        = Some (number_toString rt x @ (case dimensionUnit q of None \<Rightarrow> [] | Some u \<Rightarrow> u)))
   \<and> (\<forall>x. height q = Some x \<longrightarrow>
        params_get ''height'' (buildParams rt q)
        = Some (number_toString rt x @ (case dimensionUnit q of None \<Rightarrow> [] | Some u \<Rightarrow> u)))
   \<and> (\<forall>x. volume q = Some x \<longrightarrow>
        params_get ''volume'' (buildParams rt q)
        = Some (number_toString rt x @ (case volumeUnit q of None \<Rightarrow> [] | Some u \<Rightarrow> u)))
   \<and> (width q = Some 120 \<and> dimensionUnit q = Some ''cm'' \<longrightarrow>
        params_get ''width'' (buildParams rt q) = Some ''120cm''
        \<and> (''width'', ''120cm'') \<in> set (buildParams rt q))"
proof -
  have a: "weightUnit q = None \<or> weightUnit q = Some ''kg'' \<longrightarrow>
      params_get ''weight'' (buildParams rt q) = Some (number_toString rt (weight q))"
    by (auto simp: buildParams_weight)
  have b: "\<forall>u. weightUnit q = Some u \<and> u \<noteq> ''kg'' \<longrightarrow>
        params_get ''weight'' (buildParams rt q) = Some (number_toString rt (weight q) @ u)"
    by (auto simp: buildParams_weight)
  have c: "\<forall>x. width q = Some x \<longrightarrow>
        params_get ''width'' (buildParams rt q)
        = Some (number_toString rt x @ (case dimensionUnit q of None \<Rightarrow> [] | Some u \<Rightarrow> u))"
    by (simp add: buildParams_width unit_or_empty_eq)
  have d: "\<forall>x. length_dim q = Some x \<longrightarrow>
        params_get ''length'' (buildParams rt q)
        = Some (number_toString rt x @ (case dimensionUnit q of None \<Rightarrow> [] | Some u \<Rightarrow> u))"
    by (simp add: buildParams_length unit_or_empty_eq)
  have e: "\<forall>x. height q = Some x \<longrightarrow>
        params_get ''height'' (buildParams rt q)
        = Some (number_toString rt x @ (case dimensionUnit q of None \<Rightarrow> [] | Some u \<Rightarrow> u))"
    by (simp add: buildParams_height unit_or_empty_eq)
  have f: "\<forall>x. volume q = Some x \<longrightarrow>
        params_get ''volume'' (buildParams rt q)
        = Some (number_toString rt x @ (case volumeUnit q of None \<Rightarrow> [] | Some u \<Rightarrow> u))"
    by (simp add: buildParams_volume unit_or_empty_eq)
  have g: "params_get ''width'' (buildParams rt q) = Some ''120cm''"
    if "width q = Some 120" and "dimensionUnit q = Some ''cm''"
    using that by (simp add: buildParams_width unit_or_empty_eq number_toString_120)
  from g have h: "width q = Some 120 \<and> dimensionUnit q = Some ''cm'' \<longrightarrow>
        params_get ''width'' (buildParams rt q) = Some ''120cm''
        \<and> (''width'', ''120cm'') \<in> set (buildParams rt q)"
    by (blast intro: params_get_mem)
  from a b c d e f h show ?thesis by blast
qed

theorem buildParams_unit_suffix_witness:
  "width example_options = Some 120 \<and> dimensionUnit example_options = Some ''cm''
   \<and> weightUnit example_options = Some ''lb'' \<and> ''lb'' \<noteq> ''kg''
   \<and> (''width'', ''120cm'') \<in> set (buildParams example_runtime example_options)
   \<and> params_get ''weight'' (buildParams example_runtime example_options)
     = Some (number_toString example_runtime 500 @ ''lb'')"
proof -
  have h: "width example_options = Some 120" "dimensionUnit example_options = Some ''cm''"
    "weightUnit example_options = Some ''lb''" "''lb'' \<noteq> ''kg''" "weight example_options = 500"
    by (simp_all add: example_options_def)
  from buildParams_unit_suffix [of example_options example_runtime] h
  have "(''width'', ''120cm'') \<in> set (buildParams example_runtime example_options)"
    and "params_get ''weight'' (buildParams example_runtime example_options)
     = Some (number_toString example_runtime (weight example_options) @ ''lb'')"
    by blast+
  with h show ?thesis by simp
qed

subsection \<open>Properties of the client facade\<close>

lemma checkRateLimit_eq:
  "checkRateLimit rt w
   = ((0 < remaining (fst (getRateLimitStatus rt w)), fst (getRateLimitStatus rt w)),
      w\<lparr>ticks := Suc (ticks w)\<rparr>)"
  by (simp add: checkRateLimit_def split_beta status_world)

lemma recordCall_eq:
  "recordCall rt w
   = saveRateLimitData
       (recent (date_now rt (ticks w)) (loadRateLimitData w) @ [date_now rt (Suc (ticks w))])
       (w\<lparr>ticks := Suc (Suc (ticks w))\<rparr>)"
  by (simp add: recordCall_def cleanOldCalls_eq Date_now_def)

lemma request_denied:
  assumes "remaining (fst (getRateLimitStatus rt w)) = 0"
  shows "request rt ps w
         = (Inr \<lparr>estimatedFreightRates = None, numQuotes = None,
                 errors = Some [''Rate limit exceeded: ''
                   @ show_nat (callsInLastHour (fst (getRateLimitStatus rt w)))
                   @ ''/100 calls in the last hour. Try again at ''
                   @ or_else (toLocaleTimeString rt
                        (Min (set (recent (date_now rt (ticks w)) (loadRateLimitData w))) + 3600000))
                        ''later''
                   @ ''.''],
                 rateLimit = Some (fst (getRateLimitStatus rt w))\<rparr>,
            w\<lparr>ticks := Suc (ticks w)\<rparr>)"
proof -
  have "100 \<le> callsInLastHour (fst (getRateLimitStatus rt w))"
    using assms by (subst (asm) status_remaining) simp
  then have r: "resetsAt (fst (getRateLimitStatus rt w))
        = Some (Min (set (recent (date_now rt (ticks w)) (loadRateLimitData w))) + 3600000)"
    by (simp add: status_resetsAt)
  show ?thesis
    by (simp add: request_def checkRateLimit_eq assms r status_limit show_nat_100
        empty_response_def)
qed

lemma request_allowed_file:
  assumes "0 < remaining (fst (getRateLimitStatus rt w))" and "fetch rt ps = Some response"
  shows "rate_limit_file (snd (request rt ps w))
         = rate_limit_file (recordCall rt (w\<lparr>ticks := Suc (ticks w), fetched := fetched w @ [ps]\<rparr>))"
    and "fetched (snd (request rt ps w)) = fetched w @ [ps]"
proof -
  have s: "snd (getRateLimitStatus rt v) = v\<lparr>ticks := Suc (ticks v)\<rparr>" for v
    by (rule status_world)
  have f: "fetched (recordCall rt v) = fetched v" for v
    by (simp add: recordCall_eq saveRateLimitData_def split: WriteOutcome.split)
  show "rate_limit_file (snd (request rt ps w))
         = rate_limit_file (recordCall rt (w\<lparr>ticks := Suc (ticks w), fetched := fetched w @ [ps]\<rparr>))"
    using assms
    by (simp add: request_def checkRateLimit_eq Let_def split_beta s split: option.split)
  show "fetched (snd (request rt ps w)) = fetched w @ [ps]"
    using assms
    by (simp add: request_def checkRateLimit_eq Let_def split_beta s f split: option.split)
qed

text \<open>
  C1. When the status computed at the pre-flight check has \<^verbatim>\<open>remaining\<close> 0, each of
  \<^verbatim>\<open>request\<close>, \<^verbatim>\<open>getQuote\<close>, \<^verbatim>\<open>getQuoteEstimate\<close> and \<^verbatim>\<open>compareRates\<close> returns (does not
  throw) a response whose error list is the one message
  \<^verbatim>\<open>Rate limit exceeded: <count>/100 calls in the last hour. Try again at <time>.\<close>, where
  the time is the rendering of the oldest valid timestamp plus one hour, and whose
  \<^verbatim>\<open>rateLimit\<close> is that status. The world afterwards differs only in the one reading taken
  from the clock: nothing was fetched and the stored call list is the same.
\<close>

theorem request_rate_limited:
  assumes "remaining (fst (getRateLimitStatus rt w)) = 0"
  shows "\<forall>call \<in> {request rt ps, getQuote rt q, getQuoteEstimate rt q, compareRates rt q}.
           call w
           = (Inr \<lparr>estimatedFreightRates = None, numQuotes = None,
                   errors = Some [''Rate limit exceeded: ''
                     @ show_nat (callsInLastHour (fst (getRateLimitStatus rt w)))
                     @ ''/100 calls in the last hour. Try again at ''
                     @ or_else (toLocaleTimeString rt
                          (Min (set (filter (\<lambda>t. date_now rt (ticks w) - t < 3600000)
                                       (loadRateLimitData w))) + 3600000))
                          ''later''
                     @ ''.''],
                   rateLimit = Some (fst (getRateLimitStatus rt w))\<rparr>,
              w\<lparr>ticks := Suc (ticks w)\<rparr>)
           \<and> fetched (snd (call w)) = fetched w
           \<and> rate_limit_file (snd (call w)) = rate_limit_file w
           \<and> loadRateLimitData (snd (call w)) = loadRateLimitData w"
proof -
  have r: "recent (date_now rt (ticks w)) (loadRateLimitData w)
           = filter (\<lambda>t. date_now rt (ticks w) - t < 3600000) (loadRateLimitData w)"
    by (simp add: recent_def RATE_LIMIT_WINDOW_MS_def)
  have l: "loadRateLimitData (w\<lparr>ticks := Suc (ticks w)\<rparr>) = loadRateLimitData w"
    by (simp add: loadRateLimitData_def)
  show ?thesis
    by (simp add: getQuote_def getQuoteEstimate_def compareRates_def request_denied [OF assms] r l)
qed

theorem request_rate_limited_witness:
  "remaining (fst (getRateLimitStatus example_runtime (example_world (replicate 100 4000000)))) = 0
   \<and> fetched (snd (getQuote example_runtime example_options (example_world (replicate 100 4000000))))
     = []
   \<and> loadRateLimitData
       (snd (getQuote example_runtime example_options (example_world (replicate 100 4000000))))
     = replicate 100 4000000"
proof -
  have n: "callsInLastHour (fst (getRateLimitStatus example_runtime (example_world (replicate 100 4000000))))
           = 100"
    by (simp add: status_callsInLastHour recent_def example_runtime_def example_world_def
        loadRateLimitData_def RATE_LIMIT_WINDOW_MS_def)
  have h: "remaining (fst (getRateLimitStatus example_runtime (example_world (replicate 100 4000000)))) = 0"
    by (subst status_remaining) (simp add: n)
  have m: "getQuote example_runtime example_options
           \<in> {request example_runtime [], getQuote example_runtime example_options,
               getQuoteEstimate example_runtime example_options,
               compareRates example_runtime example_options}"
    by simp
  from request_rate_limited [OF h, of "[]" example_options] m
  have "fetched (snd (getQuote example_runtime example_options (example_world (replicate 100 4000000))))
        = fetched (example_world (replicate 100 4000000))"
    and "loadRateLimitData
           (snd (getQuote example_runtime example_options (example_world (replicate 100 4000000))))
         = loadRateLimitData (example_world (replicate 100 4000000))"
    by blast+
  with h show ?thesis
    by (simp add: example_world_def loadRateLimitData_def)
qed

lemma request_write_fails:
  assumes "0 < remaining (fst (getRateLimitStatus rt w))" and "fetch rt ps = Some response"
  shows "write_outcome w = OpenFails \<Longrightarrow>
           rate_limit_file (snd (request rt ps w)) = rate_limit_file w"
    and "write_outcome w = WriteFailsAfterOpen \<Longrightarrow>
           rate_limit_file (snd (request rt ps w)) = Unreadable"
  by (simp_all add: request_allowed_file(1) [OF assms] recordCall_eq saveRateLimitData_def)

text \<open>
  C2, as amended. For every request that passes the pre-flight check and whose HTTP call
  completes, with any status and any body, and whose write of the rate-limit file
  succeeds, the stored list afterwards is the previous list pruned at the reading of the
  clock taken when the call is recorded, with the next reading appended: one entry more
  than the valid entries before.
\<close>

theorem request_records_call:
  assumes "0 < remaining (fst (getRateLimitStatus rt w))" and "fetch rt ps = Some response"
    and "write_outcome w = WriteSucceeds"
  shows "rate_limit_file (snd (request rt ps w))
         = Parsed (Some (filter (\<lambda>t. date_now rt (ticks w + 1) - t < 3600000) (loadRateLimitData w)
                         @ [date_now rt (ticks w + 2)]))
       \<and> loadRateLimitData (snd (request rt ps w))
         = filter (\<lambda>t. date_now rt (ticks w + 1) - t < 3600000) (loadRateLimitData w)
           @ [date_now rt (ticks w + 2)]
       \<and> length (loadRateLimitData (snd (request rt ps w)))
         = length (filter (\<lambda>t. date_now rt (ticks w + 1) - t < 3600000) (loadRateLimitData w)) + 1
       \<and> fetched (snd (request rt ps w)) = fetched w @ [ps]"
proof -
  have l: "loadRateLimitData (w\<lparr>ticks := Suc (ticks w), fetched := fetched w @ [ps]\<rparr>)
           = loadRateLimitData w"
    by (simp add: loadRateLimitData_def)
  have a: "rate_limit_file (snd (request rt ps w))
         = Parsed (Some (filter (\<lambda>t. date_now rt (ticks w + 1) - t < 3600000) (loadRateLimitData w)
                         @ [date_now rt (ticks w + 2)]))"
    using assms(3)
    by (simp add: request_allowed_file(1) [OF assms(1,2)] recordCall_eq saveRateLimitData_def l
        recent_def RATE_LIMIT_WINDOW_MS_def)
  then have b: "loadRateLimitData (snd (request rt ps w))
         = filter (\<lambda>t. date_now rt (ticks w + 1) - t < 3600000) (loadRateLimitData w)
           @ [date_now rt (ticks w + 2)]"
    by (simp add: loadRateLimitData_def)
  have c: "fetched (snd (request rt ps w)) = fetched w @ [ps]"
    by (rule request_allowed_file(2) [OF assms(1,2)])
  from a b c show ?thesis by simp
qed

theorem request_records_call_witness:
  "0 < remaining (fst (getRateLimitStatus example_runtime (example_world [1, 4000000])))
   \<and> fetch example_runtime [] \<noteq> None
   \<and> write_outcome (example_world [1, 4000000]) = WriteSucceeds
   \<and> rate_limit_file (snd (request example_runtime [] (example_world [1, 4000000])))
     = Parsed (Some [4000000, 5000002])"
proof -
  have n: "callsInLastHour (fst (getRateLimitStatus example_runtime (example_world [1, 4000000]))) = 1"
    by (simp add: status_callsInLastHour recent_def example_runtime_def example_world_def
        loadRateLimitData_def RATE_LIMIT_WINDOW_MS_def)
  have h1: "0 < remaining (fst (getRateLimitStatus example_runtime (example_world [1, 4000000])))"
    by (subst status_remaining) (simp add: n)
  have h2: "fetch example_runtime []
            = Some \<lparr>http_status = 200, body_text = [],
                 body_json = Some \<lparr>raw_estimatedFreightRates = None,
                                   raw_errors = Some (ErrorString ''bad route'')\<rparr>\<rparr>"
    by (simp add: example_runtime_def)
  have h3: "write_outcome (example_world [1, 4000000]) = WriteSucceeds"
    by (simp add: example_world_def)
  from request_records_call [OF h1 h2 h3]
  have "rate_limit_file (snd (request example_runtime [] (example_world [1, 4000000])))
     = Parsed (Some [4000000, 5000002])"
    by (simp add: example_runtime_def example_world_def loadRateLimitData_def)
  with h1 h2 h3 show ?thesis by simp
qed

text \<open>
  The claim as stated fails when the write fails, which \<^verbatim>\<open>saveRateLimitData\<close> catches and
  ignores. With the stored list \<open>[1, 4000000]\<close> and a file that cannot be opened for
  writing, the request is let through, the call is fetched and completes, and the stored
  list afterwards is still \<open>[1, 4000000]\<close>, not the pruned list with the timestamp
  appended, \<open>[4000000, 5000002]\<close>.
\<close>

theorem request_records_call_counterexample:
  "0 < remaining (fst (getRateLimitStatus example_runtime
                         ((example_world [1, 4000000])\<lparr>write_outcome := OpenFails\<rparr>)))
   \<and> fetch example_runtime [] \<noteq> None
   \<and> fetched (snd (request example_runtime []
                      ((example_world [1, 4000000])\<lparr>write_outcome := OpenFails\<rparr>))) = [[]]
   \<and> loadRateLimitData (snd (request example_runtime []
                      ((example_world [1, 4000000])\<lparr>write_outcome := OpenFails\<rparr>)))
     = [1, 4000000]
   \<and> loadRateLimitData (snd (request example_runtime []
                      ((example_world [1, 4000000])\<lparr>write_outcome := OpenFails\<rparr>)))
     \<noteq> [4000000, 5000002]"
proof -
  let ?w = "(example_world [1, 4000000])\<lparr>write_outcome := OpenFails\<rparr>"
  have n: "callsInLastHour (fst (getRateLimitStatus example_runtime ?w)) = 1"
    by (simp add: status_callsInLastHour recent_def example_runtime_def example_world_def
        loadRateLimitData_def RATE_LIMIT_WINDOW_MS_def)
  have h1: "0 < remaining (fst (getRateLimitStatus example_runtime ?w))"
    by (subst status_remaining) (simp add: n)
  have h2: "fetch example_runtime []
            = Some \<lparr>http_status = 200, body_text = [],
                 body_json = Some \<lparr>raw_estimatedFreightRates = None,
                                   raw_errors = Some (ErrorString ''bad route'')\<rparr>\<rparr>"
    by (simp add: example_runtime_def)
  have f: "rate_limit_file (snd (request example_runtime [] ?w)) = Parsed (Some [1, 4000000])"
    unfolding request_allowed_file(1) [OF h1 h2]
    by (simp add: recordCall_eq saveRateLimitData_def example_world_def)
  have g: "fetched (snd (request example_runtime [] ?w)) = [[]]"
    unfolding request_allowed_file(2) [OF h1 h2]
    by (simp add: example_world_def)
  have m: "loadRateLimitData (snd (request example_runtime [] ?w)) = [1, 4000000]"
    by (simp add: loadRateLimitData_def f)
  from h1 h2 g m show ?thesis
    by simp
qed

end
